theory Spec2Isabelle
  imports Main "HOL-Library.Sublist" "HOL-Library.Monad_Syntax"
begin

section \<open>The report generator of \<^verbatim>\<open>pdf-generator.js\<close>\<close>

text \<open>
  The class \<^verbatim>\<open>PDFGenerator\<close> renders a pre-computed analysis result into a
  simulated PDF artifact and into a printable HTML page, in Arabic or English.
  The embedding follows the source method by method.

  \<^item> Strings are byte strings: a JavaScript string is represented by its UTF-8
    encoding (the encoding a \<^verbatim>\<open>Blob\<close> gives it), so equality of model strings is
    byte identity. Arabic literals of the source are written out as their bytes.
  \<^item> The analysis result is an untyped JavaScript value. Reading a property of
    \<^verbatim>\<open>undefined\<close> or \<^verbatim>\<open>null\<close> throws a \<^verbatim>\<open>TypeError\<close>; a function of the
    model that can only fail in this way returns an \<open>option\<close>, where \<open>None\<close> is
    that exception.
  \<^item> What the host supplies (clock, object URLs, whether a window may be opened) is
    an explicit argument.
\<close>

subsection \<open>JavaScript values\<close>

text \<open>
  The values an analysis result is built from: \<^verbatim>\<open>undefined\<close>, \<^verbatim>\<open>null\<close>, booleans,
  integer-valued numbers (safe integers, which print in plain decimal), strings and
  plain data objects with their own properties in order. Arrays, functions,
  fractional numbers and inherited properties are outside this model: a key is
  looked up among the own properties only.
\<close>

datatype jsval =
    JUndefined
  | JNull
  | JBool bool
  | JNum int
  | JStr string
  | JObj "(string \<times> jsval) list"

text \<open>Property read \<^verbatim>\<open>v[k]\<close> / \<^verbatim>\<open>v.k\<close>; \<open>None\<close> is the \<^verbatim>\<open>TypeError\<close>.\<close>

fun getProp :: "jsval \<Rightarrow> string \<Rightarrow> jsval option" where
  "getProp JUndefined k = None"
| "getProp JNull k = None"
| "getProp (JObj ps) k = Some (case map_of ps k of Some v \<Rightarrow> v | None \<Rightarrow> JUndefined)"
| "getProp (JBool b) k = Some JUndefined"
| "getProp (JNum n) k = Some JUndefined"
| "getProp (JStr s) k = Some JUndefined"

text \<open>Truthiness, as the operator \<^verbatim>\<open>||\<close> tests it.\<close>

fun truthy :: "jsval \<Rightarrow> bool" where
  "truthy JUndefined = False"
| "truthy JNull = False"
| "truthy (JBool b) = b"
| "truthy (JNum n) = (n \<noteq> 0)"
| "truthy (JStr s) = (s \<noteq> [])"
| "truthy (JObj ps) = True"

text \<open>Decimal digits of a natural number, most significant first.\<close>

fun digits :: "nat \<Rightarrow> string" where
  "digits n =
     (if n < 10 then [''0123456789'' ! n]
      else digits (n div 10) @ [''0123456789'' ! (n mod 10)])"

text \<open>
  The string a template literal substitutes for a value (\<^verbatim>\<open>ToString\<close>). A plain
  object prints as \<^verbatim>\<open>[object Object]\<close> through the inherited \<^verbatim>\<open>toString\<close>; an own
  data property of that name shadows the method, and the conversion throws a
  \<^verbatim>\<open>TypeError\<close>.
\<close>

fun toStr :: "jsval \<Rightarrow> string option" where
  "toStr JUndefined = Some ''undefined''"
| "toStr JNull = Some ''null''"
| "toStr (JBool b) = Some (if b then ''true'' else ''false'')"
| "toStr (JNum n) = Some (if n < 0 then CHR ''-'' # digits (nat (- n)) else digits (nat n))"
| "toStr (JStr s) = Some s"
| "toStr (JObj ps) = (if map_of ps ''toString'' = None then Some ''[object Object]'' else None)"

subsection \<open>The host environment\<close>

text \<open>
  One snapshot of what the host answers during a call:
  \<open>now_iso\<close> is \<^verbatim>\<open>new Date().toISOString()\<close>, \<open>now_locale tag\<close> is
  \<^verbatim>\<open>new Date().toLocaleDateString(tag)\<close>, \<open>object_url\<close> is the string
  \<^verbatim>\<open>URL.createObjectURL\<close> returns, and \<open>popup_allowed\<close> tells whether
  \<^verbatim>\<open>window.open\<close> returns a window (\<open>True\<close>) or \<^verbatim>\<open>null\<close> (\<open>False\<close>, a blocked popup).
\<close>

record host =
  now_iso :: string
  now_locale :: "string \<Rightarrow> string"
  object_url :: string
  popup_allowed :: bool

subsection \<open>Arabic literals\<close>

text \<open>Each constant is the UTF-8 encoding of the literal whose code points are listed.\<close>

text \<open>\<^verbatim>\<open>U+062A U+0642 U+0631 U+064A U+0631 U+0020 U+0627 U+0644 U+062A U+0634
  U+062E U+064A U+0635 U+0020 U+0627 U+0644 U+0634 U+0627 U+0645 U+0644\<close>\<close>

definition ar_report_title :: string where
  "ar_report_title =
    [CHR 0xD8, CHR 0xAA, CHR 0xD9, CHR 0x82, CHR 0xD8, CHR 0xB1, CHR 0xD9, CHR 0x8A,
     CHR 0xD8, CHR 0xB1, CHR 0x20, CHR 0xD8, CHR 0xA7, CHR 0xD9, CHR 0x84, CHR 0xD8,
     CHR 0xAA, CHR 0xD8, CHR 0xB4, CHR 0xD8, CHR 0xAE, CHR 0xD9, CHR 0x8A, CHR 0xD8,
     CHR 0xB5, CHR 0x20, CHR 0xD8, CHR 0xA7, CHR 0xD9, CHR 0x84, CHR 0xD8, CHR 0xB4,
     CHR 0xD8, CHR 0xA7, CHR 0xD9, CHR 0x85, CHR 0xD9, CHR 0x84]"

text \<open>\<^verbatim>\<open>U+0646 U+0638 U+0627 U+0645 U+0020 U+062A U+0634 U+062E U+064A U+0635
  U+0020 U+0635 U+062D U+0629 U+0020 U+0627 U+0644 U+062F U+062C U+0627
  U+062C U+0020 U+0628 U+0627 U+0644 U+0630 U+0643 U+0627 U+0621 U+0020
  U+0627 U+0644 U+0627 U+0635 U+0637 U+0646 U+0627 U+0639 U+064A\<close>\<close>

definition ar_subtitle :: string where
  "ar_subtitle =
    [CHR 0xD9, CHR 0x86, CHR 0xD8, CHR 0xB8, CHR 0xD8, CHR 0xA7, CHR 0xD9, CHR 0x85,
     CHR 0x20, CHR 0xD8, CHR 0xAA, CHR 0xD8, CHR 0xB4, CHR 0xD8, CHR 0xAE, CHR 0xD9,
     CHR 0x8A, CHR 0xD8, CHR 0xB5, CHR 0x20, CHR 0xD8, CHR 0xB5, CHR 0xD8, CHR 0xAD,
     CHR 0xD8, CHR 0xA9, CHR 0x20, CHR 0xD8, CHR 0xA7, CHR 0xD9, CHR 0x84, CHR 0xD8,
     CHR 0xAF, CHR 0xD8, CHR 0xAC, CHR 0xD8, CHR 0xA7, CHR 0xD8, CHR 0xAC, CHR 0x20,
     CHR 0xD8, CHR 0xA8, CHR 0xD8, CHR 0xA7, CHR 0xD9, CHR 0x84, CHR 0xD8, CHR 0xB0,
     CHR 0xD9, CHR 0x83, CHR 0xD8, CHR 0xA7, CHR 0xD8, CHR 0xA1, CHR 0x20, CHR 0xD8,
     CHR 0xA7, CHR 0xD9, CHR 0x84, CHR 0xD8, CHR 0xA7, CHR 0xD8, CHR 0xB5, CHR 0xD8,
     CHR 0xB7, CHR 0xD9, CHR 0x86, CHR 0xD8, CHR 0xA7, CHR 0xD8, CHR 0xB9, CHR 0xD9,
     CHR 0x8A]"

text \<open>\<^verbatim>\<open>U+0645 U+0624 U+0634 U+0631 U+0020 U+0627 U+0644 U+062B U+0642 U+0629
  U+0020 U+0627 U+0644 U+0639 U+0627 U+0645\<close>\<close>

definition ar_confidence_heading :: string where
  "ar_confidence_heading =
    [CHR 0xD9, CHR 0x85, CHR 0xD8, CHR 0xA4, CHR 0xD8, CHR 0xB4, CHR 0xD8, CHR 0xB1,
     CHR 0x20, CHR 0xD8, CHR 0xA7, CHR 0xD9, CHR 0x84, CHR 0xD8, CHR 0xAB, CHR 0xD9,
     CHR 0x82, CHR 0xD8, CHR 0xA9, CHR 0x20, CHR 0xD8, CHR 0xA7, CHR 0xD9, CHR 0x84,
     CHR 0xD8, CHR 0xB9, CHR 0xD8, CHR 0xA7, CHR 0xD9, CHR 0x85]"

text \<open>\<^verbatim>\<open>U+0645 U+0644 U+0627 U+062D U+0638 U+0629 U+0020 U+0647 U+0627 U+0645
  U+0629 U+003A\<close>\<close>

definition ar_important_note :: string where
  "ar_important_note =
    [CHR 0xD9, CHR 0x85, CHR 0xD9, CHR 0x84, CHR 0xD8, CHR 0xA7, CHR 0xD8, CHR 0xAD,
     CHR 0xD8, CHR 0xB8, CHR 0xD8, CHR 0xA9, CHR 0x20, CHR 0xD9, CHR 0x87, CHR 0xD8,
     CHR 0xA7, CHR 0xD9, CHR 0x85, CHR 0xD8, CHR 0xA9, CHR 0x3A]"

text \<open>\<^verbatim>\<open>U+0647 U+0630 U+0647 U+0020 U+0627 U+0644 U+0646 U+062A U+0627 U+0626
  U+062C U+0020 U+0627 U+0633 U+062A U+0631 U+0634 U+0627 U+062F U+064A
  U+0629 U+0020 U+0648 U+062A U+062D U+062A U+0627 U+062C U+0020 U+0644
  U+062A U+0623 U+0643 U+064A U+062F U+0020 U+0645 U+0646 U+0020 U+0637
  U+0628 U+064A U+0628 U+0020 U+0628 U+064A U+0637 U+0631 U+064A U+0020
  U+0645 U+062A U+062E U+0635 U+0635 U+002E U+0020 U+0644 U+0627 U+0020
  U+062A U+0633 U+062A U+0628 U+062F U+0644 U+0020 U+0627 U+0644 U+062A
  U+0634 U+062E U+064A U+0635 U+0020 U+0627 U+0644 U+0637 U+0628 U+064A
  U+0020 U+0627 U+0644 U+0645 U+0647 U+0646 U+064A U+002E\<close>\<close>

definition ar_disclaimer :: string where
  "ar_disclaimer =
    [CHR 0xD9, CHR 0x87, CHR 0xD8, CHR 0xB0, CHR 0xD9, CHR 0x87, CHR 0x20, CHR 0xD8,
     CHR 0xA7, CHR 0xD9, CHR 0x84, CHR 0xD9, CHR 0x86, CHR 0xD8, CHR 0xAA, CHR 0xD8,
     CHR 0xA7, CHR 0xD8, CHR 0xA6, CHR 0xD8, CHR 0xAC, CHR 0x20, CHR 0xD8, CHR 0xA7,
     CHR 0xD8, CHR 0xB3, CHR 0xD8, CHR 0xAA, CHR 0xD8, CHR 0xB1, CHR 0xD8, CHR 0xB4,
     CHR 0xD8, CHR 0xA7, CHR 0xD8, CHR 0xAF, CHR 0xD9, CHR 0x8A, CHR 0xD8, CHR 0xA9,
     CHR 0x20, CHR 0xD9, CHR 0x88, CHR 0xD8, CHR 0xAA, CHR 0xD8, CHR 0xAD, CHR 0xD8,
     CHR 0xAA, CHR 0xD8, CHR 0xA7, CHR 0xD8, CHR 0xAC, CHR 0x20, CHR 0xD9, CHR 0x84,
     CHR 0xD8, CHR 0xAA, CHR 0xD8, CHR 0xA3, CHR 0xD9, CHR 0x83, CHR 0xD9, CHR 0x8A,
     CHR 0xD8, CHR 0xAF, CHR 0x20, CHR 0xD9, CHR 0x85, CHR 0xD9, CHR 0x86, CHR 0x20,
     CHR 0xD8, CHR 0xB7, CHR 0xD8, CHR 0xA8, CHR 0xD9, CHR 0x8A, CHR 0xD8, CHR 0xA8,
     CHR 0x20, CHR 0xD8, CHR 0xA8, CHR 0xD9, CHR 0x8A, CHR 0xD8, CHR 0xB7, CHR 0xD8,
     CHR 0xB1, CHR 0xD9, CHR 0x8A, CHR 0x20, CHR 0xD9, CHR 0x85, CHR 0xD8, CHR 0xAA,
     CHR 0xD8, CHR 0xAE, CHR 0xD8, CHR 0xB5, CHR 0xD8, CHR 0xB5, CHR 0x2E, CHR 0x20,
     CHR 0xD9, CHR 0x84, CHR 0xD8, CHR 0xA7, CHR 0x20, CHR 0xD8, CHR 0xAA, CHR 0xD8,
     CHR 0xB3, CHR 0xD8, CHR 0xAA, CHR 0xD8, CHR 0xA8, CHR 0xD8, CHR 0xAF, CHR 0xD9,
     CHR 0x84, CHR 0x20, CHR 0xD8, CHR 0xA7, CHR 0xD9, CHR 0x84, CHR 0xD8, CHR 0xAA,
     CHR 0xD8, CHR 0xB4, CHR 0xD8, CHR 0xAE, CHR 0xD9, CHR 0x8A, CHR 0xD8, CHR 0xB5,
     CHR 0x20, CHR 0xD8, CHR 0xA7, CHR 0xD9, CHR 0x84, CHR 0xD8, CHR 0xB7, CHR 0xD8,
     CHR 0xA8, CHR 0xD9, CHR 0x8A, CHR 0x20, CHR 0xD8, CHR 0xA7, CHR 0xD9, CHR 0x84,
     CHR 0xD9, CHR 0x85, CHR 0xD9, CHR 0x87, CHR 0xD9, CHR 0x86, CHR 0xD9, CHR 0x8A,
     CHR 0x2E]"

text \<open>\<^verbatim>\<open>U+0646 U+0648 U+0639 U+0020 U+0627 U+0644 U+062F U+062C U+0627 U+062C
  U+0629\<close>\<close>

definition ar_chicken_breed :: string where
  "ar_chicken_breed =
    [CHR 0xD9, CHR 0x86, CHR 0xD9, CHR 0x88, CHR 0xD8, CHR 0xB9, CHR 0x20, CHR 0xD8,
     CHR 0xA7, CHR 0xD9, CHR 0x84, CHR 0xD8, CHR 0xAF, CHR 0xD8, CHR 0xAC, CHR 0xD8,
     CHR 0xA7, CHR 0xD8, CHR 0xAC, CHR 0xD8, CHR 0xA9]"

text \<open>\<^verbatim>\<open>U+0646 U+0633 U+0628 U+0629 U+0020 U+0627 U+0644 U+062B U+0642 U+0629
  U+003A\<close>\<close>

definition ar_confidence_label :: string where
  "ar_confidence_label =
    [CHR 0xD9, CHR 0x86, CHR 0xD8, CHR 0xB3, CHR 0xD8, CHR 0xA8, CHR 0xD8, CHR 0xA9,
     CHR 0x20, CHR 0xD8, CHR 0xA7, CHR 0xD9, CHR 0x84, CHR 0xD8, CHR 0xAB, CHR 0xD9,
     CHR 0x82, CHR 0xD8, CHR 0xA9, CHR 0x3A]"

text \<open>\<^verbatim>\<open>U+0627 U+0644 U+0648 U+0632 U+0646 U+0020 U+0627 U+0644 U+062A U+0642
  U+062F U+064A U+0631 U+064A\<close>\<close>

definition ar_estimated_weight :: string where
  "ar_estimated_weight =
    [CHR 0xD8, CHR 0xA7, CHR 0xD9, CHR 0x84, CHR 0xD9, CHR 0x88, CHR 0xD8, CHR 0xB2,
     CHR 0xD9, CHR 0x86, CHR 0x20, CHR 0xD8, CHR 0xA7, CHR 0xD9, CHR 0x84, CHR 0xD8,
     CHR 0xAA, CHR 0xD9, CHR 0x82, CHR 0xD8, CHR 0xAF, CHR 0xD9, CHR 0x8A, CHR 0xD8,
     CHR 0xB1, CHR 0xD9, CHR 0x8A]"

text \<open>\<^verbatim>\<open>U+0647 U+0627 U+0645 U+0634 U+0020 U+0627 U+0644 U+062E U+0637 U+0623
  U+003A\<close>\<close>

definition ar_error_margin :: string where
  "ar_error_margin =
    [CHR 0xD9, CHR 0x87, CHR 0xD8, CHR 0xA7, CHR 0xD9, CHR 0x85, CHR 0xD8, CHR 0xB4,
     CHR 0x20, CHR 0xD8, CHR 0xA7, CHR 0xD9, CHR 0x84, CHR 0xD8, CHR 0xAE, CHR 0xD8,
     CHR 0xB7, CHR 0xD8, CHR 0xA3, CHR 0x3A]"

text \<open>\<^verbatim>\<open>U+0627 U+0644 U+0645 U+0631 U+0636 U+0020 U+0627 U+0644 U+0645 U+0634
  U+062A U+0628 U+0647 U+0020 U+0628 U+0647\<close>\<close>

definition ar_suspected_disease :: string where
  "ar_suspected_disease =
    [CHR 0xD8, CHR 0xA7, CHR 0xD9, CHR 0x84, CHR 0xD9, CHR 0x85, CHR 0xD8, CHR 0xB1,
     CHR 0xD8, CHR 0xB6, CHR 0x20, CHR 0xD8, CHR 0xA7, CHR 0xD9, CHR 0x84, CHR 0xD9,
     CHR 0x85, CHR 0xD8, CHR 0xB4, CHR 0xD8, CHR 0xAA, CHR 0xD8, CHR 0xA8, CHR 0xD9,
     CHR 0x87, CHR 0x20, CHR 0xD8, CHR 0xA8, CHR 0xD9, CHR 0x87]"

text \<open>\<^verbatim>\<open>U+0646 U+0633 U+0628 U+0629 U+0020 U+0627 U+0644 U+0627 U+062D U+062A
  U+0645 U+0627 U+0644 U+003A\<close>\<close>

definition ar_probability_label :: string where
  "ar_probability_label =
    [CHR 0xD9, CHR 0x86, CHR 0xD8, CHR 0xB3, CHR 0xD8, CHR 0xA8, CHR 0xD8, CHR 0xA9,
     CHR 0x20, CHR 0xD8, CHR 0xA7, CHR 0xD9, CHR 0x84, CHR 0xD8, CHR 0xA7, CHR 0xD8,
     CHR 0xAD, CHR 0xD8, CHR 0xAA, CHR 0xD9, CHR 0x85, CHR 0xD8, CHR 0xA7, CHR 0xD9,
     CHR 0x84, CHR 0x3A]"

text \<open>\<^verbatim>\<open>U+0637 U+0631 U+064A U+0642 U+0629 U+0020 U+0627 U+0644 U+0639 U+0644
  U+0627 U+062C\<close>\<close>

definition ar_treatment :: string where
  "ar_treatment =
    [CHR 0xD8, CHR 0xB7, CHR 0xD8, CHR 0xB1, CHR 0xD9, CHR 0x8A, CHR 0xD9, CHR 0x82,
     CHR 0xD8, CHR 0xA9, CHR 0x20, CHR 0xD8, CHR 0xA7, CHR 0xD9, CHR 0x84, CHR 0xD8,
     CHR 0xB9, CHR 0xD9, CHR 0x84, CHR 0xD8, CHR 0xA7, CHR 0xD8, CHR 0xAC]"

text \<open>\<^verbatim>\<open>U+0627 U+0644 U+062F U+0648 U+0627 U+0621 U+003A\<close>\<close>

definition ar_medication :: string where
  "ar_medication =
    [CHR 0xD8, CHR 0xA7, CHR 0xD9, CHR 0x84, CHR 0xD8, CHR 0xAF, CHR 0xD9, CHR 0x88,
     CHR 0xD8, CHR 0xA7, CHR 0xD8, CHR 0xA1, CHR 0x3A]"

text \<open>\<^verbatim>\<open>U+0627 U+0644 U+062C U+0631 U+0639 U+0629 U+003A\<close>\<close>

definition ar_dosage :: string where
  "ar_dosage =
    [CHR 0xD8, CHR 0xA7, CHR 0xD9, CHR 0x84, CHR 0xD8, CHR 0xAC, CHR 0xD8, CHR 0xB1,
     CHR 0xD8, CHR 0xB9, CHR 0xD8, CHR 0xA9, CHR 0x3A]"

text \<open>\<^verbatim>\<open>U+0627 U+0644 U+0645 U+062F U+0629 U+003A\<close>\<close>

definition ar_duration :: string where
  "ar_duration =
    [CHR 0xD8, CHR 0xA7, CHR 0xD9, CHR 0x84, CHR 0xD9, CHR 0x85, CHR 0xD8, CHR 0xAF,
     CHR 0xD8, CHR 0xA9, CHR 0x3A]"

text \<open>\<^verbatim>\<open>U+062A U+062D U+0630 U+064A U+0631 U+0627 U+062A U+003A\<close>\<close>

definition ar_warnings :: string where
  "ar_warnings =
    [CHR 0xD8, CHR 0xAA, CHR 0xD8, CHR 0xAD, CHR 0xD8, CHR 0xB0, CHR 0xD9, CHR 0x8A,
     CHR 0xD8, CHR 0xB1, CHR 0xD8, CHR 0xA7, CHR 0xD8, CHR 0xAA, CHR 0x3A]"

text \<open>\<^verbatim>\<open>U+062A U+0642 U+0631 U+064A U+0631 U+002D U+0627 U+0644 U+062A U+0634
  U+062E U+064A U+0635 U+002D\<close>\<close>

definition ar_filename_prefix :: string where
  "ar_filename_prefix =
    [CHR 0xD8, CHR 0xAA, CHR 0xD9, CHR 0x82, CHR 0xD8, CHR 0xB1, CHR 0xD9, CHR 0x8A,
     CHR 0xD8, CHR 0xB1, CHR 0x2D, CHR 0xD8, CHR 0xA7, CHR 0xD9, CHR 0x84, CHR 0xD8,
     CHR 0xAA, CHR 0xD8, CHR 0xB4, CHR 0xD8, CHR 0xAE, CHR 0xD9, CHR 0x8A, CHR 0xD8,
     CHR 0xB5, CHR 0x2D]"

subsection \<open>The simulated PDF payload\<close>

text \<open>\<^verbatim>\<open>generatePDFContent\<close>: a fixed placeholder document around the localized title.\<close>

definition generatePDFContent :: "jsval \<Rightarrow> string \<Rightarrow> string" where
  \<open>generatePDFContent analysisResults language =
     ''\<newline>'' @
     ''            %PDF-1.4\<newline>'' @
     ''            1 0 obj\<newline>'' @
     ''            << /Type /Catalog /Pages 2 0 R >>\<newline>'' @
     ''            endobj\<newline>'' @
     ''            2 0 obj\<newline>'' @
     ''            << /Type /Pages /Kids [3 0 R] /Count 1 >>\<newline>'' @
     ''            endobj\<newline>'' @
     ''            3 0 obj\<newline>'' @
     ''            << /Type /Page /Parent 2 0 R /MediaBox [0 0 612 792] /Contents 4 0 R >>\<newline>'' @
     ''            endobj\<newline>'' @
     ''            4 0 obj\<newline>'' @
     ''            << /Length 100 >>\<newline>'' @
     ''            stream\<newline>'' @
     ''            BT\<newline>'' @
     ''            /F1 12 Tf\<newline>'' @
     ''            50 750 Td\<newline>'' @
     ''            ('' @ (if language = ''ar'' then ar_report_title else ''Comprehensive Diagnosis Report'') @ '') Tj\<newline>'' @
     ''            ET\<newline>'' @
     ''            endstream\<newline>'' @
     ''            endobj\<newline>'' @
     ''            xref\<newline>'' @
     ''            0 5\<newline>'' @
     ''            0000000000 65535 f \<newline>'' @
     ''            0000000009 00000 n \<newline>'' @
     ''            0000000058 00000 n \<newline>'' @
     ''            0000000115 00000 n \<newline>'' @
     ''            0000000234 00000 n \<newline>'' @
     ''            trailer\<newline>'' @
     ''            << /Size 5 /Root 1 0 R >>\<newline>'' @
     ''            startxref\<newline>'' @
     ''            295\<newline>'' @
     ''            %%EOF\<newline>'' @
     ''        ''\<close>

subsection \<open>The file name\<close>

text \<open>
  \<^verbatim>\<open>generateFilename\<close>. \<^verbatim>\<open>split('T')[0]\<close> keeps what stands before the first
  \<^verbatim>\<open>T\<close>; \<^verbatim>\<open>x || 'unknown'\<close> replaces a falsy name.
\<close>

definition generateFilename :: "host \<Rightarrow> jsval \<Rightarrow> string \<Rightarrow> string option" where
  \<open>generateFilename h analysisResults language = do {
     let timestamp = takeWhile (\<lambda>c. c \<noteq> CHR ''T'') (now_iso h);
     disease \<leftarrow> getProp analysisResults ''disease'';
     name \<leftarrow> getProp disease ''name'';
     localized \<leftarrow> getProp name language;
     diseaseName \<leftarrow> toStr (if truthy localized then localized else JStr ''unknown'');
     Some (if language = ''ar''
           then ar_filename_prefix @ diseaseName @ ''-'' @ timestamp @ ''.pdf''
           else ''diagnosis-report-'' @ diseaseName @ ''-'' @ timestamp @ ''.pdf'')
   }\<close>

subsection \<open>The printable HTML page\<close>

text \<open>
  \<^verbatim>\<open>generateHTMLSections\<close> builds an array of four \<^verbatim>\<open>{title, content}\<close> objects and
  joins their renderings. The arrow function of \<^verbatim>\<open>sections.map\<close> is \<open>renderSection\<close>.
  The property reads of the four templates come first, each with its conversion to a
  string, in the order of the source: they are the only steps that can throw.
\<close>

record html_section =
  title :: string
  content :: string

definition renderSection :: "html_section \<Rightarrow> string" where
  \<open>renderSection s =
     ''\<newline>'' @
     ''            <div class="section">\<newline>'' @
     ''                <div class="section-title">'' @ title s @ ''</div>\<newline>'' @
     ''                '' @ content s @ ''\<newline>'' @
     ''            </div>\<newline>'' @
     ''        ''\<close>

definition generateHTMLSections :: "jsval \<Rightarrow> string \<Rightarrow> string option" where
  \<open>generateHTMLSections analysisResults language = do {
     breedName \<leftarrow> getProp analysisResults ''breed'' \<bind> (\<lambda>v. getProp v ''name'') \<bind> (\<lambda>v. getProp v language) \<bind> toStr;
     breedConfidence \<leftarrow> getProp analysisResults ''breed'' \<bind> (\<lambda>v. getProp v ''confidence'') \<bind> toStr;
     weightEstimated \<leftarrow> getProp analysisResults ''weight'' \<bind> (\<lambda>v. getProp v ''estimated'') \<bind> toStr;
     weightMethod \<leftarrow> getProp analysisResults ''weight'' \<bind> (\<lambda>v. getProp v ''method'') \<bind> (\<lambda>v. getProp v language) \<bind> toStr;
     weightErrorMargin \<leftarrow> getProp analysisResults ''weight'' \<bind> (\<lambda>v. getProp v ''errorMargin'') \<bind> toStr;
     diseaseName \<leftarrow> getProp analysisResults ''disease'' \<bind> (\<lambda>v. getProp v ''name'') \<bind> (\<lambda>v. getProp v language) \<bind> toStr;
     diseaseProbability \<leftarrow> getProp analysisResults ''disease'' \<bind> (\<lambda>v. getProp v ''probability'') \<bind> toStr;
     medication \<leftarrow> getProp analysisResults ''treatment'' \<bind> (\<lambda>v. getProp v ''medication'') \<bind> (\<lambda>v. getProp v language) \<bind> toStr;
     dosage \<leftarrow> getProp analysisResults ''treatment'' \<bind> (\<lambda>v. getProp v ''dosage'') \<bind> (\<lambda>v. getProp v language) \<bind> toStr;
     duration \<leftarrow> getProp analysisResults ''treatment'' \<bind> (\<lambda>v. getProp v ''duration'') \<bind> (\<lambda>v. getProp v language) \<bind> toStr;
     warnings \<leftarrow> getProp analysisResults ''treatment'' \<bind> (\<lambda>v. getProp v ''warnings'') \<bind> (\<lambda>v. getProp v language) \<bind> toStr;
     let sections = [
       \<lparr>title = (if language = ''ar'' then ar_chicken_breed else ''Chicken Breed''),
        content =
           ''\<newline>'' @
           ''                    <p><strong>'' @ breedName @ ''</strong></p>\<newline>'' @
           ''                    <p>'' @ (if language = ''ar'' then ar_confidence_label else ''Confidence:'') @ '' '' @ breedConfidence @ ''%</p>\<newline>'' @
           ''                ''\<rparr>,
       \<lparr>title = (if language = ''ar'' then ar_estimated_weight else ''Estimated Weight''),
        content =
           ''\<newline>'' @
           ''                    <p><strong>'' @ weightEstimated @ ''</strong></p>\<newline>'' @
           ''                    <p>'' @ weightMethod @ ''</p>\<newline>'' @
           ''                    <p>'' @ (if language = ''ar'' then ar_error_margin else ''Error Margin:'') @ '' '' @ weightErrorMargin @ ''</p>\<newline>'' @
           ''                ''\<rparr>,
       \<lparr>title = (if language = ''ar'' then ar_suspected_disease else ''Suspected Disease''),
        content =
           ''\<newline>'' @
           ''                    <p><strong>'' @ diseaseName @ ''</strong></p>\<newline>'' @
           ''                    <p>'' @ (if language = ''ar'' then ar_probability_label else ''Probability:'') @ '' '' @ diseaseProbability @ ''%</p>\<newline>'' @
           ''                ''\<rparr>,
       \<lparr>title = (if language = ''ar'' then ar_treatment else ''Treatment''),
        content =
           ''\<newline>'' @
           ''                    <p><strong>'' @ (if language = ''ar'' then ar_medication else ''Medication:'') @ ''</strong> '' @ medication @ ''</p>\<newline>'' @
           ''                    <p><strong>'' @ (if language = ''ar'' then ar_dosage else ''Dosage:'') @ ''</strong> '' @ dosage @ ''</p>\<newline>'' @
           ''                    <p><strong>'' @ (if language = ''ar'' then ar_duration else ''Duration:'') @ ''</strong> '' @ duration @ ''</p>\<newline>'' @
           ''                    <p><strong>'' @ (if language = ''ar'' then ar_warnings else ''Warnings:'') @ ''</strong> '' @ warnings @ ''</p>\<newline>'' @
           ''                ''\<rparr>];
     Some (concat (map renderSection sections))
   }\<close>

text \<open>
  \<^verbatim>\<open>generatePrintableHTML\<close>. The date line is the host's
  \<^verbatim>\<open>toLocaleDateString\<close> for the locale tag chosen by the language.
\<close>

definition generatePrintableHTML :: "host \<Rightarrow> jsval \<Rightarrow> string \<Rightarrow> string option" where
  \<open>generatePrintableHTML h analysisResults language = do {
     let direction = (if language = ''ar'' then ''rtl'' else ''ltr'');
     let textAlign = (if language = ''ar'' then ''right'' else ''left'');
     overallConfidence \<leftarrow> getProp analysisResults ''overallConfidence'' \<bind> toStr;
     sections \<leftarrow> generateHTMLSections analysisResults language;
     Some (
       ''\<newline>'' @
       ''            <!DOCTYPE html>\<newline>'' @
       ''            <html dir="'' @ direction @ ''" lang="'' @ language @ ''">\<newline>'' @
       ''            <head>\<newline>'' @
       ''                <meta charset="UTF-8">\<newline>'' @
       ''                <title>'' @ (if language = ''ar'' then ar_report_title else ''Comprehensive Diagnosis Report'') @ ''</title>\<newline>'' @
       ''                <style>\<newline>'' @
       ''                    body {\<newline>'' @
       ''                        font-family: 'Tajawal', Arial, sans-serif;\<newline>'' @
       ''                        direction: '' @ direction @ '';\<newline>'' @
       ''                        text-align: '' @ textAlign @ '';\<newline>'' @
       ''                        margin: 20px;\<newline>'' @
       ''                        line-height: 1.6;\<newline>'' @
       ''                    }\<newline>'' @
       ''                    .header {\<newline>'' @
       ''                        text-align: center;\<newline>'' @
       ''                        border-bottom: 2px solid #333;\<newline>'' @
       ''                        padding-bottom: 20px;\<newline>'' @
       ''                        margin-bottom: 30px;\<newline>'' @
       ''                    }\<newline>'' @
       ''                    .section {\<newline>'' @
       ''                        margin-bottom: 25px;\<newline>'' @
       ''                        padding: 15px;\<newline>'' @
       ''                        border: 1px solid #ddd;\<newline>'' @
       ''                        border-radius: 8px;\<newline>'' @
       ''                    }\<newline>'' @
       ''                    .section-title {\<newline>'' @
       ''                        font-weight: bold;\<newline>'' @
       ''                        color: #4361ee;\<newline>'' @
       ''                        margin-bottom: 10px;\<newline>'' @
       ''                        font-size: 1.2em;\<newline>'' @
       ''                    }\<newline>'' @
       ''                    .confidence {\<newline>'' @
       ''                        text-align: center;\<newline>'' @
       ''                        background: #f8f9fa;\<newline>'' @
       ''                        padding: 15px;\<newline>'' @
       ''                        border-radius: 8px;\<newline>'' @
       ''                        margin: 20px 0;\<newline>'' @
       ''                    }\<newline>'' @
       ''                    .warning {\<newline>'' @
       ''                        background: #fff3cd;\<newline>'' @
       ''                        border: 1px solid #ffeaa7;\<newline>'' @
       ''                        padding: 15px;\<newline>'' @
       ''                        border-radius: 8px;\<newline>'' @
       ''                        margin: 20px 0;\<newline>'' @
       ''                    }\<newline>'' @
       ''                    @media print {\<newline>'' @
       ''                        body { margin: 0; }\<newline>'' @
       ''                        .no-print { display: none; }\<newline>'' @
       ''                    }\<newline>'' @
       ''                </style>\<newline>'' @
       ''            </head>\<newline>'' @
       ''            <body>\<newline>'' @
       ''                <div class="header">\<newline>'' @
       ''                    <h1>'' @ (if language = ''ar'' then ar_report_title else ''Comprehensive Diagnosis Report'') @ ''</h1>\<newline>'' @
       ''                    <p>'' @ (if language = ''ar'' then ar_subtitle else ''AI-Powered Chicken Health Diagnosis System'') @ ''</p>\<newline>'' @
       ''                    <p>'' @ now_locale h (if language = ''ar'' then ''ar-SA'' else ''en-US'') @ ''</p>\<newline>'' @
       ''                </div>\<newline>'' @
       ''\<newline>'' @
       ''                <div class="confidence">\<newline>'' @
       ''                    <h3>'' @ (if language = ''ar'' then ar_confidence_heading else ''Overall Confidence Indicator'') @ ''</h3>\<newline>'' @
       ''                    <h2>'' @ overallConfidence @ ''%</h2>\<newline>'' @
       ''                </div>\<newline>'' @
       ''\<newline>'' @
       ''                <div class="warning">\<newline>'' @
       ''                    <strong>'' @ (if language = ''ar'' then ar_important_note else ''Important Note:'') @ ''</strong>\<newline>'' @
       ''                    '' @ (if language = ''ar'' then ar_disclaimer else ''These results are indicative and require confirmation from a specialized veterinarian. They do not replace professional medical diagnosis.'') @ ''\<newline>'' @
       ''                </div>\<newline>'' @
       ''\<newline>'' @
       ''                '' @ sections @ ''\<newline>'' @
       ''            </body>\<newline>'' @
       ''            </html>\<newline>'' @
       ''        '')
   }\<close>

subsection \<open>The renderer object, the store and the host's side\<close>

text \<open>
  A \<^verbatim>\<open>PDFGenerator\<close> has one field, the busy flag. The constructor clears it.
\<close>

record PDFGenerator =
  isGenerating :: bool

definition new_PDFGenerator :: PDFGenerator where
  "new_PDFGenerator = \<lparr>isGenerating = False\<rparr>"

text \<open>
  The artifact of \<^verbatim>\<open>simulatePDFGeneration\<close>: the \<^verbatim>\<open>Blob\<close> (its one string part and its
  media type), the object URL and the file name.
\<close>

record Blob =
  blob_data :: string
  blob_type :: string

record artifact =
  blob :: Blob
  url :: string
  filename :: string

text \<open>
  A window opened by \<^verbatim>\<open>printHTMLReport\<close>: what was written into its document, whether
  the document was closed, and whether the \<^verbatim>\<open>onload\<close> handler that prints is installed.
\<close>

record window =
  written :: string
  doc_closed :: bool
  onload_prints :: bool

definition blank_window :: window where
  "blank_window = \<lparr>written = [], doc_closed = False, onload_prints = False\<rparr>"

text \<open>
  Callers pass an analysis result by reference. The world holds the renderer, the
  store of the objects callers own, the object URLs that were created, and the
  windows that were opened. \<^verbatim>\<open>downloadPDF\<close> acts on the host's document only and is
  left out.
\<close>

type_synonym ref = nat

record world =
  generator :: PDFGenerator
  heap :: "ref \<Rightarrow> jsval"
  object_urls :: "(string \<times> Blob) list"
  windows :: "window list"

datatype error = Error string | TypeError

text \<open>
  \<^verbatim>\<open>simulatePDFGeneration\<close> waits on a timer and then builds the artifact. The wait is
  the only suspension point of the class; \<open>simulatePDFGeneration\<close> is the part that
  runs when the timer fires. The object URL is created before the file name is
  computed, so it is registered also when the file name throws.
\<close>

definition simulatePDFGeneration ::
    "host \<Rightarrow> world \<Rightarrow> jsval \<Rightarrow> string \<Rightarrow> world \<times> artifact option" where
  "simulatePDFGeneration h w analysisResults language =
     (let pdfContent = generatePDFContent analysisResults language;
          b = \<lparr>blob_data = pdfContent, blob_type = ''application/pdf''\<rparr>;
          u = object_url h;
          w' = w\<lparr>object_urls := object_urls w @ [(u, b)]\<rparr>
      in (w', map_option (\<lambda>f. \<lparr>blob = b, url = u, filename = f\<rparr>)
                (generateFilename h analysisResults language)))"

text \<open>
  What can happen to the renderer: a call of one of its methods, or the timer of a
  suspended \<^verbatim>\<open>generateReport\<close> firing. A suspended call keeps the reference to the
  analysis result and the language it was started with. The language argument of
  \<^verbatim>\<open>generateReport\<close> is optional (\<open>None\<close>: omitted).
\<close>

type_synonym task = "ref \<times> string"

datatype event =
    Call_generateReport ref "string option"
  | Timer_fired task
  | Call_generateFilename ref string
  | Call_generatePrintableHTML ref string
  | Call_printHTMLReport ref string

text \<open>
  What the caller sees: an \<^verbatim>\<open>async\<close> method answers with a promise that is pending,
  fulfilled or rejected; a plain method returns a string, returns nothing, or throws.
\<close>

datatype outcome =
    Pending task
  | Fulfilled artifact
  | Rejected error
  | Returned string
  | Returned_undefined
  | Thrown error

text \<open>
  \<^verbatim>\<open>generateReport\<close> up to its suspension: the default of the language parameter, the
  busy check (its exception rejects the promise, outside the \<^verbatim>\<open>try\<close>), and the flag set.
\<close>

definition generateReport_start :: "world \<Rightarrow> ref \<Rightarrow> string option \<Rightarrow> world \<times> outcome" where
  "generateReport_start w a language_arg =
     (let language = (case language_arg of None \<Rightarrow> ''ar'' | Some l \<Rightarrow> l)
      in if isGenerating (generator w)
         then (w, Rejected (Error ''PDF generation already in progress''))
         else (w\<lparr>generator := (generator w)\<lparr>isGenerating := True\<rparr>\<rparr>, Pending (a, language)))"

text \<open>
  \<^verbatim>\<open>generateReport\<close> from the timer on: the rest of \<^verbatim>\<open>simulatePDFGeneration\<close>, then the
  \<^verbatim>\<open>finally\<close> block, which runs whether the body returned or threw. The analysis
  result is read from the store as it is at that moment. No other call can find the
  flag cleared before the \<^verbatim>\<open>finally\<close> block has run, so the two are one step here.
\<close>

definition generateReport_resume :: "host \<Rightarrow> world \<Rightarrow> task \<Rightarrow> world \<times> outcome" where
  "generateReport_resume h w t =
     (case t of (a, language) \<Rightarrow>
        (case simulatePDFGeneration h w (heap w a) language of (w', r) \<Rightarrow>
           (w'\<lparr>generator := (generator w')\<lparr>isGenerating := False\<rparr>\<rparr>,
            case r of None \<Rightarrow> Rejected TypeError | Some art \<Rightarrow> Fulfilled art)))"

text \<open>
  \<^verbatim>\<open>printHTMLReport\<close>: \<^verbatim>\<open>window.open\<close> comes first, then the page is rendered, then
  \<^verbatim>\<open>printableWindow.document\<close> is read, which throws a \<^verbatim>\<open>TypeError\<close> when the window is
  \<^verbatim>\<open>null\<close>.
\<close>

definition printHTMLReport :: "host \<Rightarrow> world \<Rightarrow> ref \<Rightarrow> string \<Rightarrow> world \<times> outcome" where
  "printHTMLReport h w a language =
     (let printableWindow = (if popup_allowed h then Some blank_window else None);
          w1 = (case printableWindow of None \<Rightarrow> w
                | Some win \<Rightarrow> w\<lparr>windows := windows w @ [win]\<rparr>)
      in case generatePrintableHTML h (heap w a) language of
           None \<Rightarrow> (w1, Thrown TypeError)
         | Some htmlContent \<Rightarrow>
             (case printableWindow of
                None \<Rightarrow> (w1, Thrown TypeError)
              | Some win \<Rightarrow>
                  (w\<lparr>windows := windows w @
                       [win\<lparr>written := written win @ htmlContent, doc_closed := True,
                            onload_prints := True\<rparr>]\<rparr>,
                   Returned_undefined)))"

text \<open>One event, from one world to the next.\<close>

fun step :: "host \<Rightarrow> world \<Rightarrow> event \<Rightarrow> world \<times> outcome" where
  "step h w (Call_generateReport a language_arg) = generateReport_start w a language_arg"
| "step h w (Timer_fired t) = generateReport_resume h w t"
| "step h w (Call_generateFilename a language) =
     (w, case generateFilename h (heap w a) language of
           None \<Rightarrow> Thrown TypeError | Some s \<Rightarrow> Returned s)"
| "step h w (Call_generatePrintableHTML a language) =
     (w, case generatePrintableHTML h (heap w a) language of
           None \<Rightarrow> Thrown TypeError | Some s \<Rightarrow> Returned s)"
| "step h w (Call_printHTMLReport a language) = printHTMLReport h w a language"

subsection \<open>Vocabulary of the properties\<close>

text \<open>The value at the end of a chain of property reads.\<close>

fun lookup_path :: "jsval \<Rightarrow> string list \<Rightarrow> jsval option" where
  "lookup_path v [] = Some v"
| "lookup_path v (k # ks) = getProp v k \<bind> (\<lambda>u. lookup_path u ks)"

text \<open>
  The chains of property reads whose values the printable page substitutes:
  the confidence, then the fields of the four sections in the order of the page.
\<close>

definition field_paths :: "string \<Rightarrow> string list list" where
  "field_paths language =
     [[''overallConfidence''],
      [''breed'', ''name'', language], [''breed'', ''confidence''],
      [''weight'', ''estimated''], [''weight'', ''method'', language], [''weight'', ''errorMargin''],
      [''disease'', ''name'', language], [''disease'', ''probability''],
      [''treatment'', ''medication'', language], [''treatment'', ''dosage'', language],
      [''treatment'', ''duration'', language], [''treatment'', ''warnings'', language]]"

text \<open>The text the page substitutes for the value at a path (empty when there is none).\<close>

definition field_text :: "jsval \<Rightarrow> string list \<Rightarrow> string" where
  "field_text r p = (case lookup_path r p \<bind> toStr of None \<Rightarrow> [] | Some s \<Rightarrow> s)"

text \<open>The opening tag of a section block, and the number of places where a pattern occurs in a text.\<close>

definition section_open :: string where
  \<open>section_open = ''<div class="section">''\<close>

fun occ :: "string \<Rightarrow> string \<Rightarrow> nat" where
  "occ p [] = (if p = [] then 1 else 0)"
| "occ p (c # cs) = (if prefix p (c # cs) then 1 else 0) + occ p cs"

text \<open>The calendar date of an ISO timestamp: \<^verbatim>\<open>YYYY-MM-DD\<close>.\<close>

definition is_digit :: "char \<Rightarrow> bool" where
  "is_digit c = (c \<in> set ''0123456789'')"

fun iso_date :: "string \<Rightarrow> bool" where
  "iso_date [y1, y2, y3, y4, s1, m1, m2, s2, d1, d2] =
     (is_digit y1 \<and> is_digit y2 \<and> is_digit y3 \<and> is_digit y4 \<and> s1 = CHR ''-'' \<and>
      is_digit m1 \<and> is_digit m2 \<and> s2 = CHR ''-'' \<and> is_digit d1 \<and> is_digit d2)"
| "iso_date _ = False"

text \<open>The locale tag \<^verbatim>\<open>generatePrintableHTML\<close> asks the date for.\<close>

definition locale_tag :: "string \<Rightarrow> string" where
  "locale_tag language = (if language = ''ar'' then ''ar-SA'' else ''en-US'')"

subsection \<open>Sample data\<close>

definition per_language :: "string \<Rightarrow> string \<Rightarrow> jsval" where
  "per_language a e = JObj [(''ar'', JStr a), (''en'', JStr e)]"

definition sample_result :: "string \<Rightarrow> jsval" where
  "sample_result breed_en =
     JObj [(''overallConfidence'', JNum 87),
           (''breed'', JObj [(''name'', per_language [CHR 0xD8, CHR 0xA8] breed_en),
                             (''confidence'', JNum 92)]),
           (''weight'', JObj [(''estimated'', JStr ''2.1 kg''),
                              (''method'', per_language [CHR 0xD8, CHR 0xA8] ''Visual estimate''),
                              (''errorMargin'', JStr ''0.2 kg'')]),
           (''disease'', JObj [(''name'', per_language [CHR 0xD9, CHR 0x86] ''Newcastle Disease''),
                               (''probability'', JNum 75)]),
           (''treatment'', JObj [(''medication'', per_language [CHR 0xD8, CHR 0xAF] ''Vaccine''),
                                 (''dosage'', per_language [CHR 0xD8, CHR 0xAC] ''1 ml''),
                                 (''duration'', per_language [CHR 0xD9, CHR 0x85] ''5 days''),
                                 (''warnings'', per_language [CHR 0xD8, CHR 0xAA] ''Isolate the bird'')])]"

definition sample_host :: "bool \<Rightarrow> host" where
  "sample_host popups =
     \<lparr>now_iso = ''2024-05-06T07:08:09.123Z'',
      now_locale = (\<lambda>tag. if tag = ''en-US'' then ''5/6/2024'' else ''1445/10/27''),
      object_url = ''blob:null/0'',
      popup_allowed = popups\<rparr>"

text \<open>
  A world with a fresh renderer and two objects in the store: a complete analysis
  result at reference 0 and an object without any field at reference 1.
\<close>

definition sample_world :: world where
  "sample_world =
     \<lparr>generator = new_PDFGenerator,
      heap = (\<lambda>a. if a = 0 then sample_result ''Leghorn'' else JObj []),
      object_urls = [],
      windows = []\<rparr>"

subsection \<open>A one-pass scanner\<close>

text \<open>
  Counting the occurrences of a pattern whose first character does not occur in it
  again can be done in one pass, remembering only how many characters of the pattern
  the text read so far ends with. \<open>st\<close> is the state after a text and \<open>cnt\<close> the
  number of occurrences completed while reading it. Unlike \<open>occ\<close>, both compose over
  concatenation, which is how the proofs count section tags in a page assembled from
  fixed and substituted texts.
\<close>

definition adv :: "string \<Rightarrow> nat \<Rightarrow> char \<Rightarrow> nat" where
  "adv p k c = (if c = p ! k then Suc k else if c = hd p then Suc 0 else 0)"

definition nxt :: "string \<Rightarrow> nat \<Rightarrow> char \<Rightarrow> nat" where
  "nxt p k c = (if adv p k c = length p then 0 else adv p k c)"

fun st :: "string \<Rightarrow> nat \<Rightarrow> string \<Rightarrow> nat" where
  "st p k [] = k"
| "st p k (c # cs) = st p (nxt p k c) cs"

fun cnt :: "string \<Rightarrow> nat \<Rightarrow> string \<Rightarrow> nat" where
  "cnt p k [] = 0"
| "cnt p k (c # cs) = (if adv p k c = length p then 1 else 0) + cnt p (nxt p k c) cs"

section \<open>Properties\<close>

declare digits.simps [simp del]

subsection \<open>The scanner counts occurrences\<close>

lemma st_append: "st p k (a @ b) = st p (st p k a) b"
  by (induction a arbitrary: k) simp_all

lemma cnt_append: "cnt p k (a @ b) = cnt p k a + cnt p (st p k a) b"
  by (induction a arbitrary: k) simp_all

lemma nxt_bound: "p \<noteq> [] \<Longrightarrow> k < length p \<Longrightarrow> nxt p k c < length p"
  by (cases p) (auto simp: nxt_def adv_def)

lemma st_bound: "p \<noteq> [] \<Longrightarrow> k < length p \<Longrightarrow> st p k s < length p"
  by (induction s arbitrary: k) (simp_all add: nxt_bound)

lemma nth_in_tl: "0 < k \<Longrightarrow> k < length p \<Longrightarrow> p ! k \<in> set (tl p)"
  by (cases p; cases k) auto

lemma cnt_occ_gen:
  assumes ne: "p \<noteq> []" and fresh: "hd p \<notin> set (tl p)"
  shows "k < length p \<Longrightarrow>
           cnt p k s = occ p s + (if 0 < k \<and> prefix (drop k p) s then 1 else 0)"
proof (induction s arbitrary: k)
  case Nil
  then show ?case using ne by simp
next
  case (Cons c s)
  note k = \<open>k < length p\<close>
  have dropk: "drop k p = p ! k # drop (Suc k) p"
    using k by (simp add: Cons_nth_drop_Suc)
  have p: "p = hd p # tl p" using ne by simp
  have later: "p ! k \<noteq> hd p" if "0 < k"
    using nth_in_tl [OF that k] fresh by auto
  have first: "prefix p (c # s) \<longleftrightarrow> c = hd p \<and> prefix (tl p) s"
    by (subst p) auto
  have pend: "prefix (drop k p) (c # s) \<longleftrightarrow> c = p ! k \<and> prefix (drop (Suc k) p) s"
    by (subst dropk) auto
  have tl1: "tl p = drop (Suc 0) p" by (simp add: drop_Suc)
  show ?case
  proof (cases "c = p ! k")
    case match: True
    show ?thesis
    proof (cases "Suc k = length p")
      case True
      then have e: "drop (Suc k) p = []" by simp
      have "cnt p k (c # s) = 1 + occ p s"
        using match True ne Cons.IH [of 0] by (simp add: adv_def nxt_def)
      moreover have "occ p (c # s) + (if 0 < k \<and> prefix (drop k p) (c # s) then 1 else 0) = 1 + occ p s"
      proof (cases "k = 0")
        case True
        then have "length p = 1" using \<open>Suc k = length p\<close> by simp
        then have "tl p = []" by (cases p) auto
        then show ?thesis using True match first by (simp add: hd_conv_nth ne)
      next
        case False
        then have "c \<noteq> hd p" using later match by simp
        then show ?thesis using False match first pend e by simp
      qed
      ultimately show ?thesis by simp
    next
      case False
      then have lt: "Suc k < length p" using k by simp
      have "cnt p k (c # s) = occ p s + (if prefix (drop (Suc k) p) s then 1 else 0)"
        using match False Cons.IH [OF lt] by (simp add: adv_def nxt_def)
      moreover have "occ p (c # s) + (if 0 < k \<and> prefix (drop k p) (c # s) then 1 else 0)
           = occ p s + (if prefix (drop (Suc k) p) s then 1 else 0)"
      proof (cases "k = 0")
        case True
        then have "c = hd p" using match ne by (simp add: hd_conv_nth)
        then show ?thesis using True first tl1 by simp
      next
        case False
        then have "c \<noteq> hd p" using later match by simp
        then show ?thesis using False match first pend by simp
      qed
      ultimately show ?thesis by simp
    qed
  next
    case mismatch: False
    show ?thesis
    proof (cases "c = hd p")
      case True
      then have k0: "0 < k" using mismatch ne by (cases k) (auto simp: hd_conv_nth)
      then have one: "Suc 0 < length p" using k by simp
      have "cnt p k (c # s) = occ p s + (if prefix (drop (Suc 0) p) s then 1 else 0)"
        using mismatch True one Cons.IH [OF one] by (simp add: adv_def nxt_def)
      then show ?thesis using mismatch True first pend tl1 by simp
    next
      case False
      have "cnt p k (c # s) = occ p s"
        using mismatch False ne Cons.IH [of 0] by (simp add: adv_def nxt_def)
      then show ?thesis using mismatch False first pend by simp
    qed
  qed
qed

lemma cnt_occ: "p \<noteq> [] \<Longrightarrow> hd p \<notin> set (tl p) \<Longrightarrow> cnt p 0 s = occ p s"
  using cnt_occ_gen [of p 0 s] by simp

subsection \<open>Scanning for the section tag\<close>

lemma sec_len: "length section_open = 21" by (simp add: section_open_def)
lemma sec_ne: "section_open \<noteq> []" by (simp add: section_open_def)
lemma sec_fresh: "hd section_open \<notin> set (tl section_open)" by (simp add: section_open_def)
lemma sec_hd: "hd section_open = CHR ''<''" by (simp add: section_open_def)

lemma sec_nth_lt: "k < 21 \<Longrightarrow> section_open ! k = CHR ''<'' \<longleftrightarrow> k = 0"
proof (cases "k = 0")
  case True then show ?thesis by (simp add: section_open_def)
next
  case False
  assume "k < 21"
  with False have "section_open ! k \<in> set (tl section_open)"
    by (intro nth_in_tl) (simp_all add: sec_len)
  moreover have "CHR ''<'' \<notin> set (tl section_open)" by (simp add: section_open_def)
  ultimately have "section_open ! k \<noteq> CHR ''<''" by metis
  with False show ?thesis by simp
qed

lemma st_lt: "k < 21 \<Longrightarrow> st section_open k s < 21"
  using st_bound [of section_open k s] by (simp add: sec_len sec_ne)

text \<open>One step of the scanner for the section tag, from a state known to be in range.\<close>

lemma nxt_sec:
  \<open>k < 21 \<Longrightarrow> nxt section_open k c =
     (if c = CHR ''<'' then 1
      else if c = ''<div class="section">'' ! k then (if k = 20 then 0 else k + 1) else 0)\<close>
  using sec_nth_lt [of k] by (auto simp: nxt_def adv_def sec_len sec_hd section_open_def)

lemma hit_sec:
  \<open>k < 21 \<Longrightarrow> adv section_open k c = length section_open \<longleftrightarrow> k = 20 \<and> c = CHR ''>''\<close>
  using sec_nth_lt [of k] by (auto simp: adv_def sec_len sec_hd section_open_def)

lemma st0 [simp]: "st section_open 0 (c # cs) = st section_open (if c = CHR ''<'' then 1 else 0) cs"
  by (simp add: nxt_sec)
lemma cnt0 [simp]: "cnt section_open 0 (c # cs) = cnt section_open (if c = CHR ''<'' then 1 else 0) cs"
  by (simp add: nxt_sec hit_sec)
lemma st1 [simp]: "st section_open (Suc 0) (c # cs)
    = st section_open (if c = CHR ''<'' then 1 else if c = CHR ''d'' then 2 else 0) cs"
  by (simp add: nxt_sec numeral_2_eq_2)
lemma cnt1 [simp]: "cnt section_open (Suc 0) (c # cs)
    = cnt section_open (if c = CHR ''<'' then 1 else if c = CHR ''d'' then 2 else 0) cs"
  by (simp add: nxt_sec hit_sec numeral_2_eq_2)
lemma stn [simp]: \<open>numeral n < (21::nat) \<Longrightarrow> st section_open (numeral n) (c # cs)
    = st section_open (if c = CHR ''<'' then 1
      else if c = ''<div class="section">'' ! numeral n then (if numeral n = (20::nat) then 0 else numeral n + 1) else 0) cs\<close>
  by (simp add: nxt_sec)
lemma cntn [simp]: \<open>numeral n < (21::nat) \<Longrightarrow> cnt section_open (numeral n) (c # cs)
    = (if numeral n = (20::nat) \<and> c = CHR ''>'' then 1 else 0) +
      cnt section_open (if c = CHR ''<'' then 1
      else if c = ''<div class="section">'' ! numeral n then (if numeral n = (20::nat) then 0 else numeral n + 1) else 0) cs\<close>
  by (simp add: nxt_sec hit_sec)

text \<open>After a text of unknown content the state is unknown; the characters that follow
  a substituted text in the templates bring the scanner to a known state.\<close>

lemma st_after_lt [simp]:
  "j < 21 \<Longrightarrow> st section_open (st section_open j v) (CHR ''<'' # cs) = st section_open 1 cs"
  by (simp add: nxt_sec st_lt)
lemma cnt_after_lt [simp]:
  "j < 21 \<Longrightarrow> cnt section_open (st section_open j v) (CHR ''<'' # cs) = cnt section_open 1 cs"
  using st_lt [of j v] by (simp add: nxt_sec hit_sec)
lemma out_sec:
  assumes c: \<open>c \<notin> set ''<div class="section">''\<close> and k: "k < 21"
  shows "nxt section_open k c = 0" and "adv section_open k c \<noteq> length section_open"
proof -
  from c have c': "c \<notin> set section_open" unfolding section_open_def .
  have "section_open ! k \<in> set section_open" using k by (simp add: sec_len)
  moreover have "hd section_open \<in> set section_open" using sec_ne by simp
  ultimately have "c \<noteq> section_open ! k" "c \<noteq> hd section_open" using c' by auto
  then have "adv section_open k c = 0" by (simp add: adv_def)
  then show "nxt section_open k c = 0" and "adv section_open k c \<noteq> length section_open"
    by (simp_all add: nxt_def sec_len)
qed

lemma st_after_pct [simp]:
  "j < 21 \<Longrightarrow> st section_open (st section_open j v) (CHR ''%'' # cs) = st section_open 0 cs"
  by (simp add: out_sec st_lt)
lemma cnt_after_pct [simp]:
  "j < 21 \<Longrightarrow> cnt section_open (st section_open j v) (CHR ''%'' # cs) = cnt section_open 0 cs"
  by (simp add: out_sec st_lt)
lemma st_after_nl [simp]:
  "j < 21 \<Longrightarrow> st section_open (st section_open j v) (CHR ''\<newline>'' # cs) = st section_open 0 cs"
  by (simp add: out_sec st_lt)
lemma cnt_after_nl [simp]:
  "j < 21 \<Longrightarrow> cnt section_open (st section_open j v) (CHR ''\<newline>'' # cs) = cnt section_open 0 cs"
  by (simp add: out_sec st_lt)

declare st.simps(2) [simp del] cnt.simps(2) [simp del]

lemmas scan_simps = st_append cnt_append

lemma occ_sec: "occ section_open s = cnt section_open 0 s"
  by (simp add: cnt_occ sec_ne sec_fresh)

subsection \<open>The texts the page substitutes\<close>

lemma lookup1: "lookup_path r [a] \<bind> toStr = getProp r a \<bind> toStr"
  by (cases "getProp r a") simp_all

lemma lookup2: "lookup_path r [a, b] \<bind> toStr = getProp r a \<bind> (\<lambda>v. getProp v b) \<bind> toStr"
proof (cases "getProp r a")
  case None then show ?thesis by simp
next
  case (Some x)
  then show ?thesis by (cases "getProp x b") simp_all
qed

lemma lookup3: "lookup_path r [a, b, c] \<bind> toStr
     = getProp r a \<bind> (\<lambda>v. getProp v b) \<bind> (\<lambda>v. getProp v c) \<bind> toStr"
proof (cases "getProp r a")
  case None then show ?thesis by simp
next
  case (Some x)
  show ?thesis
  proof (cases "getProp x b")
    case None then show ?thesis using Some by simp
  next
    case (Some y)
    then show ?thesis using \<open>getProp r a = Some x\<close> by (cases "getProp y c") simp_all
  qed
qed

lemma field_text_Some: "lookup_path r p = Some v \<Longrightarrow> toStr v = Some s \<Longrightarrow> field_text r p = s"
  by (simp add: field_text_def)

lemmas ar_defs = ar_report_title_def ar_subtitle_def ar_confidence_heading_def ar_important_note_def
  ar_disclaimer_def ar_chicken_breed_def ar_confidence_label_def ar_estimated_weight_def
  ar_error_margin_def ar_suspected_disease_def ar_probability_label_def ar_treatment_def
  ar_medication_def ar_dosage_def ar_duration_def ar_warnings_def ar_filename_prefix_def

lemma sections_scan_en:
  assumes secs: "generateHTMLSections r ''en'' = Some secs"
  shows "cnt section_open 0 secs
           = 4 + sum_list (map (\<lambda>p. cnt section_open 0 (field_text r p)) (tl (field_paths ''en'')))
         \<and> st section_open 0 secs = 0"
  using secs unfolding generateHTMLSections_def lookup2 [symmetric] lookup3 [symmetric]
  apply (simp only: bind_eq_Some_conv Let_def)
  apply (elim exE conjE)
  apply (drule (1) field_text_Some)+
  apply (simp only: option.inject)
  apply hypsubst
  apply (simp add: scan_simps renderSection_def field_paths_def del: append_Cons)
  done

lemma sections_scan_ar:
  assumes secs: "generateHTMLSections r ''ar'' = Some secs"
  shows "cnt section_open 0 secs
           = 4 + sum_list (map (\<lambda>p. cnt section_open 0 (field_text r p)) (tl (field_paths ''ar'')))
         \<and> st section_open 0 secs = 0"
  using secs unfolding generateHTMLSections_def lookup2 [symmetric] lookup3 [symmetric]
  apply (simp only: bind_eq_Some_conv Let_def)
  apply (elim exE conjE)
  apply (drule (1) field_text_Some)+
  apply (simp only: option.inject)
  apply hypsubst
  apply (simp add: scan_simps renderSection_def field_paths_def ar_defs del: append_Cons)
  done

subsection \<open>What a rendered page contains\<close>

text \<open>
  The number of section tags in a page for a supported language: four of the
  renderer's own, and those inside the substituted texts.
\<close>

lemma page_scan_en:
  assumes html: "generatePrintableHTML h r ''en'' = Some html"
  shows "occ section_open html
           = 4 + occ section_open (now_locale h (locale_tag ''en''))
               + sum_list (map (\<lambda>p. occ section_open (field_text r p)) (field_paths ''en''))"
  using html unfolding generatePrintableHTML_def lookup1 [symmetric]
  apply (simp only: bind_eq_Some_conv Let_def)
  apply (elim exE conjE)
  apply (drule (1) field_text_Some)
  apply (drule sections_scan_en)
  apply (simp only: option.inject)
  apply hypsubst
  apply (simp add: occ_sec scan_simps field_paths_def locale_tag_def del: append_Cons)
  done

lemma page_scan_ar:
  assumes html: "generatePrintableHTML h r ''ar'' = Some html"
  shows "occ section_open html
           = 4 + occ section_open (now_locale h (locale_tag ''ar''))
               + sum_list (map (\<lambda>p. occ section_open (field_text r p)) (field_paths ''ar''))"
  using html unfolding generatePrintableHTML_def lookup1 [symmetric]
  apply (simp only: bind_eq_Some_conv Let_def)
  apply (elim exE conjE)
  apply (drule (1) field_text_Some)
  apply (drule sections_scan_ar)
  apply (simp only: option.inject)
  apply hypsubst
  apply (simp add: occ_sec scan_simps field_paths_def locale_tag_def ar_defs del: append_Cons)
  done

lemma page_scan:
  assumes "l = ''ar'' \<or> l = ''en''" and "generatePrintableHTML h r l = Some html"
  shows "occ section_open html
           = 4 + occ section_open (now_locale h (locale_tag l))
               + sum_list (map (\<lambda>p. occ section_open (field_text r p)) (field_paths l))"
  using assms page_scan_ar page_scan_en by blast

text \<open>The page is rendered when every field it reads can be read and printed.\<close>

lemma sections_returns:
  assumes "\<forall>p\<in>set (tl (field_paths l)). lookup_path r p \<bind> toStr \<noteq> None"
  shows "\<exists>secs. generateHTMLSections r l = Some secs"
  using assms unfolding generateHTMLSections_def lookup2 [symmetric] lookup3 [symmetric]
  by (clarsimp simp: field_paths_def bind_eq_Some_conv simp del: lookup_path.simps append_Cons)

lemma page_returns:
  assumes "\<forall>p\<in>set (field_paths l). lookup_path r p \<bind> toStr \<noteq> None"
  shows "\<exists>html. generatePrintableHTML h r l = Some html"
proof -
  have "\<forall>p\<in>set (tl (field_paths l)). lookup_path r p \<bind> toStr \<noteq> None"
    using assms by (simp add: field_paths_def del: lookup_path.simps)
  then obtain secs where secs: "generateHTMLSections r l = Some secs"
    using sections_returns by blast
  obtain oc where oc: "lookup_path r [''overallConfidence''] \<bind> toStr = Some oc"
    using assms by (auto simp: field_paths_def simp del: lookup_path.simps)
  show ?thesis
    unfolding generatePrintableHTML_def lookup1 [symmetric] Let_def
    by (simp only: oc secs Option.bind.bind_lunit) (rule exI, rule refl)
qed

lemma sample_readable:
  "l = ''ar'' \<or> l = ''en'' \<Longrightarrow>
   \<forall>p\<in>set (field_paths l). lookup_path (sample_result b) p \<bind> toStr \<noteq> None"
  by (auto simp: field_paths_def sample_result_def per_language_def)

text \<open>Finding a text made of consecutive pieces of a page.\<close>

lemma toStr_87: "toStr (JNum 87) = Some ''87''"
  by (simp add: digits.simps)

lemma sublist_skip: "sublist x t \<Longrightarrow> sublist x (v @ t)"
  unfolding sublist_def by (metis append.assoc)

lemma sublist_here: "prefix x t \<Longrightarrow> sublist x t"
  by (rule prefix_imp_sublist)

lemma prefix_self: "prefix xs (xs @ ys)"
  by simp

lemmas prefix_peel = same_prefix_prefix prefix_self prefix_order.refl

lemma sections_blocks:
  assumes "generateHTMLSections r l = Some secs"
  shows "\<exists>c1 c2 c3 c4. secs =
      renderSection \<lparr>title = (if l = ''ar'' then ar_chicken_breed else ''Chicken Breed''), content = c1\<rparr> @
      renderSection \<lparr>title = (if l = ''ar'' then ar_estimated_weight else ''Estimated Weight''), content = c2\<rparr> @
      renderSection \<lparr>title = (if l = ''ar'' then ar_suspected_disease else ''Suspected Disease''), content = c3\<rparr> @
      renderSection \<lparr>title = (if l = ''ar'' then ar_treatment else ''Treatment''), content = c4\<rparr>"
  using assms unfolding generateHTMLSections_def
  apply (simp only: bind_eq_Some_conv Let_def option.inject)
  apply (elim exE conjE)
  apply hypsubst
  apply (simp only: list.map concat.simps append_Nil2)
  apply (intro exI)
  apply (rule refl)
  done

lemma page_contains_sections:
  assumes "generatePrintableHTML h r l = Some html"
  shows "\<exists>secs. generateHTMLSections r l = Some secs \<and> sublist secs html"
  using assms unfolding generatePrintableHTML_def
  apply (simp only: bind_eq_Some_conv Let_def option.inject)
  apply (elim exE conjE)
  apply hypsubst
  apply (rule exI, rule conjI, assumption)
  apply ((rule sublist_here; simp only: prefix_peel; fail) | rule sublist_skip)+
  done

subsection \<open>The renderer's guard and the effects of its methods\<close>

text \<open>
  C1. A call of \<^verbatim>\<open>generateReport\<close> on a busy renderer is rejected at once with the
  error \<^verbatim>\<open>PDF generation already in progress\<close> and changes nothing. A call on an idle
  renderer sets the flag before it suspends on the timer; while it is suspended a
  second call is rejected; when the timer fires the flag is cleared, whether the call
  is fulfilled or rejected by a \<^verbatim>\<open>TypeError\<close>; and a call made after that is not rejected
  as busy but suspends in its turn.
\<close>

theorem single_flight_guard:
  "(isGenerating (generator w) \<longrightarrow>
      step h w (Call_generateReport a la)
        = (w, Rejected (Error ''PDF generation already in progress'')))
   \<and> \<not> isGenerating (generator (fst (step h w (Timer_fired t0))))
   \<and> (\<not> isGenerating (generator w) \<longrightarrow>
        (\<exists>w1 t. step h w (Call_generateReport a la) = (w1, Pending t)
           \<and> isGenerating (generator w1)
           \<and> step h2 w1 (Call_generateReport a' la')
               = (w1, Rejected (Error ''PDF generation already in progress''))
           \<and> (\<exists>w2 r. step h3 w1 (Timer_fired t) = (w2, r)
                 \<and> \<not> isGenerating (generator w2)
                 \<and> (r = Rejected TypeError \<or> (\<exists>art. r = Fulfilled art))
                 \<and> (\<exists>w3 t'. step h4 w2 (Call_generateReport a'' la'') = (w3, Pending t')))))"
  by (auto simp: generateReport_start_def generateReport_resume_def simulatePDFGeneration_def
        Let_def split: option.splits prod.splits)

theorem single_flight_guard_witness:
  "\<not> isGenerating (generator sample_world)
   \<and> (\<exists>w1 t. step (sample_host True) sample_world (Call_generateReport 1 None) = (w1, Pending t)
         \<and> isGenerating (generator w1)
         \<and> step (sample_host True) w1 (Call_generateReport 0 (Some ''en''))
             = (w1, Rejected (Error ''PDF generation already in progress''))
         \<and> (\<exists>w2 r. step (sample_host True) w1 (Timer_fired t) = (w2, r)
               \<and> \<not> isGenerating (generator w2)
               \<and> (r = Rejected TypeError \<or> (\<exists>art. r = Fulfilled art))
               \<and> (\<exists>w3 t'. step (sample_host True) w2 (Call_generateReport 0 (Some ''en''))
                             = (w3, Pending t'))))
   \<and> snd (step (sample_host True)
             (fst (step (sample_host True) sample_world (Call_generateReport 1 None)))
             (Timer_fired (1, ''ar''))) = Rejected TypeError"
proof -
  have idle: "\<not> isGenerating (generator sample_world)"
    by (simp add: sample_world_def new_PDFGenerator_def)
  have fails: "snd (step (sample_host True)
             (fst (step (sample_host True) sample_world (Call_generateReport 1 None)))
             (Timer_fired (1, ''ar''))) = Rejected TypeError"
    by (simp add: generateReport_start_def generateReport_resume_def simulatePDFGeneration_def
          generateFilename_def sample_world_def new_PDFGenerator_def Let_def)
  from single_flight_guard [of sample_world "sample_host True" 1 None "(0, [])"
      "sample_host True" 0 "Some ''en''" "sample_host True" "sample_host True" 0 "Some ''en''"]
    idle fails
  show ?thesis by blast
qed

text \<open>
  C5. Rendering the printable page leaves the world as it was (the renderer's flag
  included), and its result depends only on the analysis result, the language and the
  date text for the language's locale: two renderings of the same result agree whenever
  that date text is the same, whatever else differs in the host or in the world.
\<close>

theorem printable_html_pure:
  assumes "now_locale h1 (locale_tag l) = now_locale h2 (locale_tag l)"
    and "heap w1 a1 = heap w2 a2"
  shows "snd (step h1 w1 (Call_generatePrintableHTML a1 l))
           = snd (step h2 w2 (Call_generatePrintableHTML a2 l))
       \<and> fst (step h1 w1 (Call_generatePrintableHTML a1 l)) = w1
       \<and> generatePrintableHTML h1 r l = generatePrintableHTML h2 r l"
proof -
  have "generatePrintableHTML h1 x l = generatePrintableHTML h2 x l" for x
    using assms(1) unfolding generatePrintableHTML_def locale_tag_def by (simp only:)
  then show ?thesis using assms(2) by simp
qed

theorem printable_html_pure_witness:
  "now_locale (sample_host True) (locale_tag ''en'')
     = now_locale ((sample_host False)\<lparr>now_iso := ''1999-12-31T23:59:59.000Z''\<rparr>) (locale_tag ''en'')
   \<and> heap sample_world 0 = heap (sample_world\<lparr>generator := \<lparr>isGenerating = True\<rparr>\<rparr>) 0
   \<and> snd (step (sample_host True) sample_world (Call_generatePrintableHTML 0 ''en''))
       = snd (step ((sample_host False)\<lparr>now_iso := ''1999-12-31T23:59:59.000Z''\<rparr>)
                (sample_world\<lparr>generator := \<lparr>isGenerating = True\<rparr>\<rparr>)
                (Call_generatePrintableHTML 0 ''en''))
   \<and> fst (step (sample_host True) sample_world (Call_generatePrintableHTML 0 ''en'')) = sample_world"
proof -
  have d: "now_locale (sample_host True) (locale_tag ''en'')
     = now_locale ((sample_host False)\<lparr>now_iso := ''1999-12-31T23:59:59.000Z''\<rparr>) (locale_tag ''en'')"
    by (simp add: sample_host_def)
  have e: "heap sample_world 0 = heap (sample_world\<lparr>generator := \<lparr>isGenerating = True\<rparr>\<rparr>) 0"
    by simp
  from printable_html_pure [OF d e] d e show ?thesis by blast
qed

text \<open>
  C7. Omitting the language argument of \<^verbatim>\<open>generateReport\<close> is the same as passing
  \<^verbatim>\<open>'ar'\<close>: the call leaves the same world and the same suspended task, and so the
  same artifact (payload, locator and file name) or the same failure when its timer
  fires.
\<close>

theorem generateReport_default_language:
  "step h w (Call_generateReport a None) = step h w (Call_generateReport a (Some ''ar''))
   \<and> (case step h w (Call_generateReport a None) of
        (w1, Pending t) \<Rightarrow> step h' w1 (Timer_fired t) | other \<Rightarrow> other)
     = (case step h w (Call_generateReport a (Some ''ar'')) of
        (w1, Pending t) \<Rightarrow> step h' w1 (Timer_fired t) | other \<Rightarrow> other)"
  by (simp add: generateReport_start_def)

text \<open>
  C8, as amended. When the host blocks the new window (\<^verbatim>\<open>window.open\<close> returns
  \<^verbatim>\<open>null\<close>), \<^verbatim>\<open>printHTMLReport\<close> opens, writes and prints nothing, and no dedicated
  error is produced; but the call does not end silently: reading the document of the
  missing window throws a \<^verbatim>\<open>TypeError\<close> to the caller.
\<close>

theorem blocked_popup_throws:
  assumes "\<not> popup_allowed h"
  shows "step h w (Call_printHTMLReport a l) = (w, Thrown TypeError)"
  using assms by (simp add: printHTMLReport_def split: option.splits)

theorem blocked_popup_throws_witness:
  "\<not> popup_allowed (sample_host False)
   \<and> step (sample_host False) sample_world (Call_printHTMLReport 0 ''ar'')
       = (sample_world, Thrown TypeError)"
proof -
  have b: "\<not> popup_allowed (sample_host False)" by (simp add: sample_host_def)
  from blocked_popup_throws [OF b] b show ?thesis by blast
qed

text \<open>
  C8 as it was stated fails: with popups blocked and a complete analysis result, for
  which the page itself renders, the caller gets a \<^verbatim>\<open>TypeError\<close>.
\<close>

theorem blocked_popup_counterexample:
  "generatePrintableHTML (sample_host False) (heap sample_world 0) ''en'' \<noteq> None
   \<and> snd (step (sample_host False) sample_world (Call_printHTMLReport 0 ''en'')) = Thrown TypeError"
proof -
  have "\<exists>html. generatePrintableHTML (sample_host False) (sample_result ''Leghorn'') ''en'' = Some html"
    by (rule page_returns [OF sample_readable [of "''en''"]]) simp
  then have 1: "generatePrintableHTML (sample_host False) (heap sample_world 0) ''en'' \<noteq> None"
    by (auto simp: sample_world_def)
  have 2: "snd (step (sample_host False) sample_world (Call_printHTMLReport 0 ''en'')) = Thrown TypeError"
    by (simp add: printHTMLReport_def sample_host_def split: option.splits)
  from 1 2 show ?thesis by blast
qed

text \<open>
  C9. No event writes to an object a caller owns: after a call of any method, and after
  the timer of a suspended \<^verbatim>\<open>generateReport\<close>, the store holds at every reference the
  value it held before, the analysis result passed to the call among them.
\<close>

theorem result_not_mutated: "heap (fst (step h w e)) = heap w"
  by (cases e)
     (auto simp: generateReport_start_def generateReport_resume_def simulatePDFGeneration_def
           printHTMLReport_def Let_def split: option.splits prod.splits)

text \<open>
  C10. The payload does not depend on the analysis result: for a fixed language two
  results give the same bytes; the payload is one fixed text around the title, which is
  the Arabic title for \<^verbatim>\<open>'ar'\<close> and the English one for every other language; and two
  fulfilled \<^verbatim>\<open>generateReport\<close> calls for the same language carry equal blobs.
\<close>

theorem payload_language_only:
  "generatePDFContent r1 l = generatePDFContent r2 l
   \<and> (\<exists>pre post. \<forall>r l. generatePDFContent r l
          = pre @ (if l = ''ar'' then ar_report_title else ''Comprehensive Diagnosis Report'') @ post)
   \<and> (step h1 w1 (Timer_fired (a1, l)) = (w1', Fulfilled art1) \<longrightarrow>
      step h2 w2 (Timer_fired (a2, l)) = (w2', Fulfilled art2) \<longrightarrow>
      blob art1 = blob art2)"
proof (intro conjI)
  show "generatePDFContent r1 l = generatePDFContent r2 l"
    by (simp only: generatePDFContent_def)
  show "\<exists>pre post. \<forall>r l. generatePDFContent r l
          = pre @ (if l = ''ar'' then ar_report_title else ''Comprehensive Diagnosis Report'') @ post"
    apply (rule exI [of _ "take 464 (generatePDFContent JNull ''en'')"])
    apply (rule exI [of _ "drop 494 (generatePDFContent JNull ''en'')"])
    apply (simp add: generatePDFContent_def)
    done
  show "step h1 w1 (Timer_fired (a1, l)) = (w1', Fulfilled art1) \<longrightarrow>
      step h2 w2 (Timer_fired (a2, l)) = (w2', Fulfilled art2) \<longrightarrow>
      blob art1 = blob art2"
  proof (intro impI)
    assume 1: "step h1 w1 (Timer_fired (a1, l)) = (w1', Fulfilled art1)"
      and 2: "step h2 w2 (Timer_fired (a2, l)) = (w2', Fulfilled art2)"
    have same: "generatePDFContent x l = generatePDFContent y l" for x y
      by (simp only: generatePDFContent_def)
    from 1 have "blob art1
        = \<lparr>blob_data = generatePDFContent (heap w1 a1) l, blob_type = ''application/pdf''\<rparr>"
      by (auto simp: generateReport_resume_def simulatePDFGeneration_def Let_def
            split: option.splits)
    moreover from 2 have "blob art2
        = \<lparr>blob_data = generatePDFContent (heap w2 a2) l, blob_type = ''application/pdf''\<rparr>"
      by (auto simp: generateReport_resume_def simulatePDFGeneration_def Let_def
            split: option.splits)
    ultimately show "blob art1 = blob art2"
      using same [of "heap w1 a1" "heap w2 a2"] by simp
  qed
qed

theorem payload_language_only_witness:
  "\<exists>w1' art1 w2' art2.
      step (sample_host True) sample_world (Timer_fired (0, ''en'')) = (w1', Fulfilled art1)
    \<and> step (sample_host False) (sample_world\<lparr>heap := \<lambda>a. sample_result ''Sussex''\<rparr>)
          (Timer_fired (7, ''en'')) = (w2', Fulfilled art2)
    \<and> heap sample_world 0 \<noteq> sample_result ''Sussex''
    \<and> blob art1 = blob art2"
proof -
  obtain w1' art1 where 1:
    "step (sample_host True) sample_world (Timer_fired (0, ''en'')) = (w1', Fulfilled art1)"
    by (simp add: generateReport_resume_def simulatePDFGeneration_def generateFilename_def
          sample_world_def sample_result_def per_language_def Let_def)
  obtain w2' art2 where 2:
    "step (sample_host False) (sample_world\<lparr>heap := \<lambda>a. sample_result ''Sussex''\<rparr>)
          (Timer_fired (7, ''en'')) = (w2', Fulfilled art2)"
    by (simp add: generateReport_resume_def simulatePDFGeneration_def generateFilename_def
          sample_world_def sample_result_def per_language_def Let_def)
  have 3: "heap sample_world 0 \<noteq> sample_result ''Sussex''"
    by (simp add: sample_world_def sample_result_def per_language_def)
  from payload_language_only [of _ "''en''" _ "sample_host True" sample_world 0 w1' art1
      "sample_host False" "sample_world\<lparr>heap := \<lambda>a. sample_result ''Sussex''\<rparr>" 7 w2' art2] 1 2 3
  show ?thesis by blast
qed

subsection \<open>The file name\<close>

lemma is_digit_not_T: "is_digit c \<Longrightarrow> c \<noteq> CHR ''T''"
  by (auto simp: is_digit_def)

lemma iso_date_no_T: "iso_date d \<Longrightarrow> CHR ''T'' \<notin> set d"
  by (erule iso_date.elims) (auto dest: is_digit_not_T)

lemma iso_date_part:
  assumes "iso_date d"
  shows "takeWhile (\<lambda>c. c \<noteq> CHR ''T'') (d @ CHR ''T'' # rest) = d"
proof -
  have "\<forall>c\<in>set d. c \<noteq> CHR ''T''" using iso_date_no_T [OF assms] by auto
  then show ?thesis by (simp add: takeWhile_tail)
qed

lemma generateFilename_eq:
  assumes "lookup_path r [''disease'', ''name'', l] = Some v"
  shows "generateFilename h r l =
           map_option (\<lambda>n. (if l = ''ar'' then ar_filename_prefix else ''diagnosis-report-'')
                           @ n @ ''-'' @ takeWhile (\<lambda>c. c \<noteq> CHR ''T'') (now_iso h) @ ''.pdf'')
             (toStr (if truthy v then v else JStr ''unknown''))"
proof -
  from assms obtain a b where a: "getProp r ''disease'' = Some a"
    and b: "getProp a ''name'' = Some b" and v: "getProp b l = Some v"
    by (auto simp: bind_eq_Some_conv)
  show ?thesis
    by (cases "toStr (if truthy v then v else JStr ''unknown'')")
       (simp_all add: generateFilename_def a b v Let_def)
qed

lemma sublist_mid: "sublist x (p @ x @ q)"
  by (auto simp: sublist_def)

lemma sublist_mid2: "sublist x (p @ y @ z @ x @ q)"
  using sublist_mid [of x "p @ y @ z" q] by simp

text \<open>
  C3. Let the host's ISO timestamp start with a calendar date \<open>d\<close> of the form
  \<^verbatim>\<open>YYYY-MM-DD\<close>, followed by \<^verbatim>\<open>T\<close>. For both supported languages, when the disease name
  for the language is a non-empty string the file name is the language's prefix, the name,
  a hyphen, \<open>d\<close> and \<^verbatim>\<open>.pdf\<close>: it contains the name and the date and ends with \<^verbatim>\<open>.pdf\<close>.
  When the name is absent the placeholder \<^verbatim>\<open>unknown\<close> stands in its place. For the
  English name \<^verbatim>\<open>Newcastle Disease\<close> the file name is
  \<^verbatim>\<open>diagnosis-report-Newcastle Disease-\<close>\<open>d\<close>\<^verbatim>\<open>.pdf\<close>.
\<close>

theorem filename_shape:
  assumes clock: "now_iso h = d @ CHR ''T'' # rest" and date: "iso_date d"
    and l: "l = ''ar'' \<or> l = ''en''"
  shows "(lookup_path r [''disease'', ''name'', l] = Some (JStr s) \<and> s \<noteq> [] \<longrightarrow>
            (\<exists>f. generateFilename h r l = Some f
               \<and> f = (if l = ''ar'' then ar_filename_prefix else ''diagnosis-report-'')
                      @ s @ ''-'' @ d @ ''.pdf''
               \<and> sublist s f \<and> sublist d f \<and> suffix ''.pdf'' f))
       \<and> (lookup_path r [''disease'', ''name'', l] = Some JUndefined \<longrightarrow>
            (\<exists>f. generateFilename h r l = Some f
               \<and> f = (if l = ''ar'' then ar_filename_prefix else ''diagnosis-report-'')
                      @ ''unknown'' @ ''-'' @ d @ ''.pdf''
               \<and> sublist ''unknown'' f \<and> sublist d f \<and> suffix ''.pdf'' f))
       \<and> generateFilename h
            (JObj [(''disease'', JObj [(''name'', JObj [(''en'', JStr ''Newcastle Disease'')])])]) ''en''
          = Some (''diagnosis-report-Newcastle Disease-'' @ d @ ''.pdf'')"
proof -
  have ts: "takeWhile (\<lambda>c. c \<noteq> CHR ''T'') (now_iso h) = d"
    using iso_date_part [OF date] clock by simp
  have shape: "sublist n (p @ n @ ''-'' @ d @ ''.pdf'') \<and> sublist d (p @ n @ ''-'' @ d @ ''.pdf'')
       \<and> suffix ''.pdf'' (p @ n @ ''-'' @ d @ ''.pdf'')" for n p
  proof (intro conjI)
    show "sublist n (p @ n @ ''-'' @ d @ ''.pdf'')" by (rule sublist_mid)
    show "sublist d (p @ n @ ''-'' @ d @ ''.pdf'')" by (rule sublist_mid2)
    show "suffix ''.pdf'' (p @ n @ ''-'' @ d @ ''.pdf'')"
      unfolding suffix_def by (rule exI [of _ "p @ n @ ''-'' @ d"]) simp
  qed
  have present: "\<exists>f. generateFilename h r l = Some f
               \<and> f = (if l = ''ar'' then ar_filename_prefix else ''diagnosis-report-'')
                      @ s @ ''-'' @ d @ ''.pdf''
               \<and> sublist s f \<and> sublist d f \<and> suffix ''.pdf'' f"
    if "lookup_path r [''disease'', ''name'', l] = Some (JStr s)" and "s \<noteq> []"
    using shape [of s] by (simp add: generateFilename_eq [OF that(1)] that(2) ts)
  have absent: "\<exists>f. generateFilename h r l = Some f
               \<and> f = (if l = ''ar'' then ar_filename_prefix else ''diagnosis-report-'')
                      @ ''unknown'' @ ''-'' @ d @ ''.pdf''
               \<and> sublist ''unknown'' f \<and> sublist d f \<and> suffix ''.pdf'' f"
    if "lookup_path r [''disease'', ''name'', l] = Some JUndefined"
    using shape [of "''unknown''"] by (simp add: generateFilename_eq [OF that] ts)
  have scenario: "generateFilename h
            (JObj [(''disease'', JObj [(''name'', JObj [(''en'', JStr ''Newcastle Disease'')])])]) ''en''
          = Some (''diagnosis-report-Newcastle Disease-'' @ d @ ''.pdf'')"
    by (simp add: generateFilename_def ts)
  from present absent scenario show ?thesis by blast
qed

theorem filename_shape_witness:
  "now_iso (sample_host True) = ''2024-05-06'' @ CHR ''T'' # ''07:08:09.123Z''
   \<and> iso_date ''2024-05-06''
   \<and> generateFilename (sample_host True) (sample_result ''Leghorn'') ''en''
       = Some ''diagnosis-report-Newcastle Disease-2024-05-06.pdf''
   \<and> generateFilename (sample_host True) (JObj [(''disease'', JObj [(''name'', JObj [])])]) ''ar''
       = Some (ar_filename_prefix @ ''unknown-2024-05-06.pdf'')"
proof -
  have c: "now_iso (sample_host True) = ''2024-05-06'' @ CHR ''T'' # ''07:08:09.123Z''"
    by (simp add: sample_host_def)
  have d: "iso_date ''2024-05-06''" by (simp add: is_digit_def)
  have p: "lookup_path (sample_result ''Leghorn'') [''disease'', ''name'', ''en'']
             = Some (JStr ''Newcastle Disease'')"
    by (simp add: sample_result_def per_language_def)
  have q: "lookup_path (JObj [(''disease'', JObj [(''name'', JObj [])])])
             [''disease'', ''name'', ''ar''] = Some JUndefined"
    by simp
  have en: "''en'' = ''ar'' \<or> ''en'' = ''en''" and ar: "''ar'' = ''ar'' \<or> ''ar'' = ''en''"
    by simp_all
  from filename_shape [OF c d en, of "sample_result ''Leghorn''" "''Newcastle Disease''"] p
  have 1: "generateFilename (sample_host True) (sample_result ''Leghorn'') ''en''
       = Some ''diagnosis-report-Newcastle Disease-2024-05-06.pdf''" by simp
  from filename_shape [OF c d ar, of "JObj [(''disease'', JObj [(''name'', JObj [])])]"] q
  have 2: "generateFilename (sample_host True) (JObj [(''disease'', JObj [(''name'', JObj [])])]) ''ar''
       = Some (ar_filename_prefix @ ''unknown-2024-05-06.pdf'')" by simp
  from c d 1 2 show ?thesis by blast
qed

subsection \<open>The printable page\<close>

text \<open>
  C2, as amended. For a supported language, when neither the date text nor any of the
  field texts the page substitutes contains the opening tag of a section block, the
  page has exactly four such tags, and they open four consecutive blocks titled, in
  this order, breed, weight, suspected disease and treatment, whatever the field
  values are.
\<close>

theorem four_section_blocks:
  assumes l: "l = ''ar'' \<or> l = ''en''"
    and html: "generatePrintableHTML h r l = Some html"
    and date: "occ section_open (now_locale h (locale_tag l)) = 0"
    and fields: "\<forall>p\<in>set (field_paths l). occ section_open (field_text r p) = 0"
  shows "occ section_open html = 4
       \<and> (\<exists>c1 c2 c3 c4. sublist
            (renderSection \<lparr>title = (if l = ''ar'' then ar_chicken_breed else ''Chicken Breed''), content = c1\<rparr> @
             renderSection \<lparr>title = (if l = ''ar'' then ar_estimated_weight else ''Estimated Weight''), content = c2\<rparr> @
             renderSection \<lparr>title = (if l = ''ar'' then ar_suspected_disease else ''Suspected Disease''), content = c3\<rparr> @
             renderSection \<lparr>title = (if l = ''ar'' then ar_treatment else ''Treatment''), content = c4\<rparr>)
            html)"
proof
  have "sum_list (map (\<lambda>p. occ section_open (field_text r p)) (field_paths l)) = 0"
    using fields by (simp add: sum_list_eq_0_iff)
  then show "occ section_open html = 4"
    using page_scan [OF l html] date by simp
next
  from page_contains_sections [OF html] obtain secs
    where secs: "generateHTMLSections r l = Some secs" and sub: "sublist secs html" by blast
  from sections_blocks [OF secs] sub show "\<exists>c1 c2 c3 c4. sublist
            (renderSection \<lparr>title = (if l = ''ar'' then ar_chicken_breed else ''Chicken Breed''), content = c1\<rparr> @
             renderSection \<lparr>title = (if l = ''ar'' then ar_estimated_weight else ''Estimated Weight''), content = c2\<rparr> @
             renderSection \<lparr>title = (if l = ''ar'' then ar_suspected_disease else ''Suspected Disease''), content = c3\<rparr> @
             renderSection \<lparr>title = (if l = ''ar'' then ar_treatment else ''Treatment''), content = c4\<rparr>)
            html"
    by blast
qed

theorem four_section_blocks_witness:
  "\<exists>html. generatePrintableHTML (sample_host True) (sample_result ''Leghorn'') ''ar'' = Some html
     \<and> occ section_open (now_locale (sample_host True) (locale_tag ''ar'')) = 0
     \<and> list_all (\<lambda>p. occ section_open (field_text (sample_result ''Leghorn'') p) = 0)
          (field_paths ''ar'')
     \<and> occ section_open html = 4"
proof -
  obtain html where html:
    "generatePrintableHTML (sample_host True) (sample_result ''Leghorn'') ''ar'' = Some html"
    using page_returns [OF sample_readable [of "''ar''"]] by blast
  have date: "occ section_open (now_locale (sample_host True) (locale_tag ''ar'')) = 0"
    by (simp add: sample_host_def locale_tag_def section_open_def)
  have fields: "\<forall>p\<in>set (field_paths ''ar'').
      occ section_open (field_text (sample_result ''Leghorn'') p) = 0"
    by (simp add: field_paths_def field_text_def sample_result_def per_language_def
          digits.simps section_open_def)
  from four_section_blocks [OF _ html date fields] html date fields
  show ?thesis by (auto simp: list_all_iff)
qed

text \<open>
  C2 as it was stated fails on a result whose English breed name is itself the
  opening tag of a section block: the page then has five of them.
\<close>

theorem injected_section_counterexample:
  "map_option (occ section_open)
     (generatePrintableHTML (sample_host True) (sample_result section_open) ''en'') = Some 5"
proof -
  obtain html where html:
    "generatePrintableHTML (sample_host True) (sample_result section_open) ''en'' = Some html"
    using page_returns [OF sample_readable [of "''en''"]] by blast
  have "occ section_open html = 5"
    unfolding page_scan_en [OF html]
    by (simp add: field_paths_def field_text_def sample_result_def per_language_def
          sample_host_def locale_tag_def digits.simps section_open_def)
  with html show ?thesis by simp
qed

text \<open>
  C4. Every rendered page opens with the document type and an \<^verbatim>\<open>html\<close> tag whose
  \<^verbatim>\<open>dir\<close> attribute is \<^verbatim>\<open>rtl\<close> when the language is \<^verbatim>\<open>ar\<close> and \<^verbatim>\<open>ltr\<close> for any other
  language, and its style sheet gives the body that same direction with the matching
  text alignment, \<^verbatim>\<open>right\<close> or \<^verbatim>\<open>left\<close>.
\<close>

theorem layout_direction:
  assumes html: "generatePrintableHTML h r l = Some html"
  shows \<open>prefix (''\<newline>'' @
                ''            <!DOCTYPE html>\<newline>'' @
                ''            <html dir="'' @ (if l = ''ar'' then ''rtl'' else ''ltr'') @ ''" lang="'' @ l @ ''">\<newline>'') html
       \<and> sublist (''                    body {\<newline>'' @
                  ''                        font-family: 'Tajawal', Arial, sans-serif;\<newline>'' @
                  ''                        direction: '' @ (if l = ''ar'' then ''rtl'' else ''ltr'') @ '';\<newline>'' @
                  ''                        text-align: '' @ (if l = ''ar'' then ''right'' else ''left'') @ '';\<newline>'') html\<close>
  using html unfolding generatePrintableHTML_def
  apply (simp only: bind_eq_Some_conv Let_def option.inject)
  apply (elim exE conjE)
  apply hypsubst
  apply (rule conjI)
   apply (simp only: prefix_peel)
  apply ((rule sublist_here; simp only: prefix_peel; fail) | rule sublist_skip)+
  done

theorem layout_direction_witness:
  \<open>\<exists>html. generatePrintableHTML (sample_host True) (sample_result ''Leghorn'') ''ar'' = Some html
     \<and> prefix (''\<newline>'' @
                ''            <!DOCTYPE html>\<newline>'' @
                ''            <html dir="'' @ ''rtl'' @ ''" lang="'' @ ''ar'' @ ''">\<newline>'') html
     \<and> sublist (''                    body {\<newline>'' @
                  ''                        font-family: 'Tajawal', Arial, sans-serif;\<newline>'' @
                  ''                        direction: '' @ ''rtl'' @ '';\<newline>'' @
                  ''                        text-align: '' @ ''right'' @ '';\<newline>'') html\<close>
proof -
  obtain html where html:
    "generatePrintableHTML (sample_host True) (sample_result ''Leghorn'') ''ar'' = Some html"
    using page_returns [OF sample_readable [of "''ar''"]] by blast
  from layout_direction [OF html] html show ?thesis
    by (simp only: refl if_True) blast
qed

text \<open>
  C6. When \<^verbatim>\<open>overallConfidence\<close> is the number 87, every rendered page, in any language,
  contains the confidence block with its heading and the text \<^verbatim>\<open>87%\<close> in it.
\<close>

theorem confidence_87:
  assumes oc: "getProp r ''overallConfidence'' = Some (JNum 87)"
    and html: "generatePrintableHTML h r l = Some html"
  shows \<open>sublist (''                <div class="confidence">\<newline>'' @
                 ''                    <h3>'' @ (if l = ''ar'' then ar_confidence_heading else ''Overall Confidence Indicator'') @ ''</h3>\<newline>'' @
                 ''                    <h2>'' @ ''87'' @ ''%</h2>\<newline>'' @
                 ''                </div>\<newline>'') html\<close>
  using html unfolding generatePrintableHTML_def
  apply (simp only: bind_eq_Some_conv Let_def oc option.inject)
  apply (elim exE conjE)
  apply hypsubst
  apply (simp only: toStr_87 option.inject)
  apply hypsubst
  apply ((rule sublist_here; simp only: prefix_peel; fail) | rule sublist_skip)+
  done

theorem confidence_87_witness:
  \<open>getProp (sample_result ''Leghorn'') ''overallConfidence'' = Some (JNum 87)
   \<and> (\<exists>html. generatePrintableHTML (sample_host True) (sample_result ''Leghorn'') ''en'' = Some html
        \<and> sublist (''                <div class="confidence">\<newline>'' @
                 ''                    <h3>'' @ ''Overall Confidence Indicator'' @ ''</h3>\<newline>'' @
                 ''                    <h2>'' @ ''87'' @ ''%</h2>\<newline>'' @
                 ''                </div>\<newline>'') html)\<close>
proof -
  have oc: "getProp (sample_result ''Leghorn'') ''overallConfidence'' = Some (JNum 87)"
    by (simp add: sample_result_def)
  obtain html where html:
    "generatePrintableHTML (sample_host True) (sample_result ''Leghorn'') ''en'' = Some html"
    using page_returns [OF sample_readable [of "''en''"]] by blast
  have ne: "''en'' \<noteq> ''ar''" by simp
  from confidence_87 [OF oc html] oc html show ?thesis
    by (simp only: ne if_False) blast
qed

end
